theory Spec2Isabelle
  imports Complex_Main "HOL-Library.Char_ord" "HOL-Library.List_Lexorder"
begin

section \<open>Trace2Config: configuration synthesis over a feature model\<close>

text \<open>
  A shallow embedding of \<^verbatim>\<open>Trace2Config-Synthesis.py\<close>. The program compiles an XML
  feature model into Z3 terms, adds a preset, a policy rule, a latency model and bounds
  taken from trace data, and asks Z3 for one model.

  What lies outside the program is taken as input:
  \<^item> the parsed XML document (\<^verbatim>\<open>etree.parse\<close>) is a value of type \<open>xml\<close>;
  \<^item> the record that \<^verbatim>\<open>derive_empirical_bounds\<close> reads from the CSV files is a value
    of type \<open>EmpiricalBounds\<close>;
  \<^item> Z3's \<^verbatim>\<open>Solver.check\<close>/\<^verbatim>\<open>Solver.model\<close> is a parameter \<open>solve\<close>: \<open>Some m\<close> stands for
    \<^verbatim>\<open>sat\<close> with model \<open>m\<close>, \<open>None\<close> for any other answer.

  Python floats are modelled as reals. z3py turns a float into the numeral of its decimal
  representation, so the constants \<^verbatim>\<open>1.2\<close> and \<^verbatim>\<open>0.9\<close> are the exact rationals
  \<open>6/5\<close> and \<open>9/10\<close> inside the solver, and so on, and the solver adds them exactly. The
  embedding of finite floats into the reals preserves the order, hence \<^verbatim>\<open>min\<close>. The
  values \<^verbatim>\<open>nan\<close> and \<^verbatim>\<open>inf\<close> are not modelled.
\<close>

subsection \<open>The XML document and the XPath queries of the compiler\<close>

datatype xml = Element (tag: string) (attrib: "(string \<times> string) list") (kids: "xml list")

text \<open>\<^verbatim>\<open>e.get(k)\<close>: the value of attribute \<open>k\<close>, or \<^verbatim>\<open>None\<close>.\<close>

definition get :: "xml \<Rightarrow> string \<Rightarrow> string option" where
  "get e k = map_of (attrib e) k"

text \<open>
  \<^verbatim>\<open>root.xpath(".//*")\<close>: the elements below the context node, in document order. The
  context node itself is not among them.
\<close>

fun descendants :: "xml \<Rightarrow> xml list" where
  "descendants (Element t as cs) = concat (map (\<lambda>c. c # descendants c) cs)"

text \<open>\<^verbatim>\<open>root.xpath(".//alt")\<close>, \<^verbatim>\<open>".//requires"\<close>, \<^verbatim>\<open>".//excludes"\<close>.\<close>

definition xpath_tag :: "xml \<Rightarrow> string \<Rightarrow> xml list" where
  "xpath_tag doc t = filter (\<lambda>e. tag e = t) (descendants doc)"

text \<open>
  \<^verbatim>\<open>[f.get("name") for f in root.xpath(".//*[@name]")]\<close>: the name of every element
  below the root that carries one.
\<close>

definition declared_names :: "xml \<Rightarrow> string list" where
  "declared_names doc = List.map_filter (\<lambda>f. get f ''name'') (descendants doc)"

text \<open>\<^verbatim>\<open>[c.get("name") for c in alt.xpath("./feature[@name]")]\<close>.\<close>

definition child_feature_names :: "xml \<Rightarrow> string list" where
  "child_feature_names alt =
     List.map_filter (\<lambda>c. get c ''name'') (filter (\<lambda>c. tag c = ''feature'') (kids alt))"

subsection \<open>The Z3 terms the program builds\<close>

text \<open>
  Boolean terms are feature variables \<^verbatim>\<open>Bool(name)\<close> and the constants
  \<^verbatim>\<open>BoolVal(b)\<close>. Integer terms are numerals, \<^verbatim>\<open>If(c, 1, 0)\<close>, \<^verbatim>\<open>Sum\<close> and the variable
  \<^verbatim>\<open>Int("freshness_window_ms")\<close>. Real terms are numerals, \<^verbatim>\<open>If\<close>, \<open>+\<close> and the variable
  \<^verbatim>\<open>Real("latency_ms")\<close>. Z3 tells constants of different sorts apart, so the three kinds
  of variables live in separate components of a model.
\<close>

datatype bexp = Bool string | BoolVal bool

datatype iexp =
    IntVal int
  | IfI bexp iexp iexp
  | Sum "iexp list"
  | freshness_window_ms

datatype rexp =
    RealVal real
  | IfR bexp rexp rexp
  | Add rexp rexp
  | latency_ms

datatype formula =
    Holds bexp
  | Or "bexp list"
  | Implies bexp bexp
  | NotAnd bexp bexp
  | EqB bexp bexp
  | EqI iexp iexp
  | GeI iexp iexp
  | EqR rexp rexp
  | LeR rexp rexp

record z3model =
  bools :: "string \<Rightarrow> bool"
  latency_val :: real
  freshness_val :: int

fun eval_b :: "z3model \<Rightarrow> bexp \<Rightarrow> bool" where
  "eval_b m (Bool n) = bools m n"
| "eval_b m (BoolVal b) = b"

fun eval_i :: "z3model \<Rightarrow> iexp \<Rightarrow> int" where
  "eval_i m (IntVal n) = n"
| "eval_i m (IfI c a b) = (if eval_b m c then eval_i m a else eval_i m b)"
| "eval_i m (Sum es) = sum_list (map (eval_i m) es)"
| "eval_i m freshness_window_ms = freshness_val m"

fun eval_r :: "z3model \<Rightarrow> rexp \<Rightarrow> real" where
  "eval_r m (RealVal x) = x"
| "eval_r m (IfR c a b) = (if eval_b m c then eval_r m a else eval_r m b)"
| "eval_r m (Add a b) = eval_r m a + eval_r m b"
| "eval_r m latency_ms = latency_val m"

fun holds :: "z3model \<Rightarrow> formula \<Rightarrow> bool" where
  "holds m (Holds b) = eval_b m b"
| "holds m (Or bs) = list_ex (eval_b m) bs"
| "holds m (Implies a b) = (eval_b m a \<longrightarrow> eval_b m b)"
| "holds m (NotAnd a b) = (\<not> (eval_b m a \<and> eval_b m b))"
| "holds m (EqB a b) = (eval_b m a = eval_b m b)"
| "holds m (EqI a b) = (eval_i m a = eval_i m b)"
| "holds m (GeI a b) = (eval_i m a \<ge> eval_i m b)"
| "holds m (EqR a b) = (eval_r m a = eval_r m b)"
| "holds m (LeR a b) = (eval_r m a \<le> eval_r m b)"

text \<open>A model satisfies a list of assertions when it satisfies each of them.\<close>

definition satisfies :: "z3model \<Rightarrow> formula list \<Rightarrow> bool" where
  "satisfies m cs = list_all (holds m) cs"

subsection \<open>Feature model compiler\<close>

text \<open>
  The only exception the program itself can raise is the \<^verbatim>\<open>KeyError\<close> of a dictionary
  subscript.
\<close>

datatype error = KeyError string

text \<open>
  \<^verbatim>\<open>feature_vars = {name: Bool(name) for name in sorted(feature_names)}\<close>: a dictionary
  in the order of its keys. Python orders strings by code point, which is the bytewise
  order of their UTF-8 form.
\<close>

definition make_feature_vars :: "string list \<Rightarrow> (string \<times> bexp) list" where
  "make_feature_vars names = map (\<lambda>name. (name, Bool name)) (sort (remdups names))"

text \<open>\<^verbatim>\<open>[feature_vars[n] for n in names]\<close>, which raises at the first missing key.\<close>

fun subscript_all :: "(string \<times> bexp) list \<Rightarrow> string list \<Rightarrow> error + bexp list" where
  "subscript_all fv [] = Inr []"
| "subscript_all fv (n # ns) =
     (case map_of fv n of
        None \<Rightarrow> Inl (KeyError n)
      | Some v \<Rightarrow> (case subscript_all fv ns of Inl e \<Rightarrow> Inl e | Inr vs \<Rightarrow> Inr (v # vs)))"

text \<open>The body of the loop over the alternative groups, for one group.\<close>

definition alt_constraints :: "bexp list \<Rightarrow> formula list" where
  "alt_constraints children =
     (if children \<noteq> []
      then [Or children, EqI (Sum (map (\<lambda>c. IfI c (IntVal 1) (IntVal 0)) children)) (IntVal 1)]
      else [])"

text \<open>
  The specification words the constraints of a group over the set of its child feature
  variables. This second definition follows those words, each child counted once, to be
  compared with \<open>alt_constraints\<close> on the list the program builds.
\<close>

definition alt_constraints_spec :: "bexp list \<Rightarrow> formula list" where
  "alt_constraints_spec children = alt_constraints (remdups children)"

fun compile_alts :: "(string \<times> bexp) list \<Rightarrow> xml list \<Rightarrow> error + formula list" where
  "compile_alts fv [] = Inr []"
| "compile_alts fv (alt # alts) =
     (case subscript_all fv (child_feature_names alt) of
        Inl e \<Rightarrow> Inl e
      | Inr children \<Rightarrow>
          (case compile_alts fv alts of
             Inl e \<Rightarrow> Inl e
           | Inr cs \<Rightarrow> Inr (alt_constraints children @ cs)))"

text \<open>
  The bodies of the loops over the requires and the excludes declarations. A missing
  attribute is \<^verbatim>\<open>None\<close> in Python, which is no key of the dictionary.
\<close>

definition requires_constraints :: "(string \<times> bexp) list \<Rightarrow> xml \<Rightarrow> formula list" where
  "requires_constraints fv req =
     (case (get req ''a'', get req ''b'') of
        (Some a, Some b) \<Rightarrow>
          (case (map_of fv a, map_of fv b) of
             (Some va, Some vb) \<Rightarrow> [Implies va vb]
           | _ \<Rightarrow> [])
      | _ \<Rightarrow> [])"

definition excludes_constraints :: "(string \<times> bexp) list \<Rightarrow> xml \<Rightarrow> formula list" where
  "excludes_constraints fv exc =
     (case (get exc ''a'', get exc ''b'') of
        (Some a, Some b) \<Rightarrow>
          (case (map_of fv a, map_of fv b) of
             (Some va, Some vb) \<Rightarrow> [NotAnd va vb]
           | _ \<Rightarrow> [])
      | _ \<Rightarrow> [])"

definition compile_feature_model :: "xml \<Rightarrow> error + ((string \<times> bexp) list \<times> formula list)" where
  "compile_feature_model doc =
     (let feature_vars = make_feature_vars (declared_names doc) in
      case compile_alts feature_vars (xpath_tag doc ''alt'') of
        Inl e \<Rightarrow> Inl e
      | Inr alt_cs \<Rightarrow>
          Inr (feature_vars,
               alt_cs
               @ concat (map (requires_constraints feature_vars) (xpath_tag doc ''requires''))
               @ concat (map (excludes_constraints feature_vars) (xpath_tag doc ''excludes''))))"

subsection \<open>Variant loader\<close>

definition load_variant :: "string \<Rightarrow> (string \<times> bool) list" where
  "load_variant variant_name =
     (if variant_name = ''V1'' then [(''CAN'', True), (''AES_128'', True)]
      else if variant_name = ''V2'' then [(''CAN_FD'', True), (''AES_256'', True)]
      else if variant_name = ''V3'' then [(''SecOC_Protection'', True)]
      else [])"

subsection \<open>Empirical bounds and the latency model\<close>

record EmpiricalBounds =
  d1_mean_period_ms :: real
  d1_min_interarrival_ms :: real
  d1_max_interarrival_ms :: real
  d2_max_auth_latency_ms :: real
  d2_max_jitter_ms :: real
  d3_max_latency_by_variant :: "string \<rightharpoonup> real"
  d4_min_replay_interval_ms :: real

text \<open>\<^verbatim>\<open>feature_vars.get(name, BoolVal(False))\<close>.\<close>

definition get_or_false :: "(string \<times> bexp) list \<Rightarrow> string \<Rightarrow> bexp" where
  "get_or_false fv name = (case map_of fv name of Some v \<Rightarrow> v | None \<Rightarrow> BoolVal False)"

definition mac_cost :: "(string \<times> bexp) list \<Rightarrow> rexp" where
  "mac_cost fv =
     IfR (get_or_false fv ''MAC_32'') (RealVal (12 / 10))
         (IfR (get_or_false fv ''MAC_64'') (RealVal (22 / 10)) (RealVal (32 / 10)))"

definition aes_cost :: "(string \<times> bexp) list \<Rightarrow> rexp" where
  "aes_cost fv = IfR (get_or_false fv ''AES_128'') (RealVal (9 / 10)) (RealVal (16 / 10))"

definition fr_cost :: "(string \<times> bexp) list \<Rightarrow> rexp" where
  "fr_cost fv = IfR (get_or_false fv ''Fresh_Counter'') (RealVal (7 / 10)) (RealVal (11 / 10))"

text \<open>
  \<^verbatim>\<open>build_latency_model\<close> returns the variable and the list holding its defining
  equation. The bounds argument is not used by the source either.
\<close>

definition build_latency_model :: "EmpiricalBounds \<Rightarrow> (string \<times> bexp) list \<Rightarrow> rexp \<times> formula list" where
  "build_latency_model bounds fv =
     (latency_ms, [EqR latency_ms (Add (Add (mac_cost fv) (aes_cost fv)) (fr_cost fv))])"

subsection \<open>End-to-end synthesis\<close>

text \<open>Python's \<^verbatim>\<open>int(x)\<close> on a float drops the fraction: it rounds towards zero.\<close>

definition py_int :: "real \<Rightarrow> int" where
  "py_int x = (if 0 \<le> x then \<lfloor>x\<rfloor> else \<lceil>x\<rceil>)"

text \<open>The right-hand side of the latency bound.\<close>

definition latency_bound :: "EmpiricalBounds \<Rightarrow> string \<Rightarrow> real" where
  "latency_bound bounds variant_name =
     min (d2_max_auth_latency_ms bounds)
         (case d3_max_latency_by_variant bounds variant_name of
            Some x \<Rightarrow> x
          | None \<Rightarrow> d2_max_auth_latency_ms bounds)"

definition req_constraints :: "(string \<times> bexp) list \<Rightarrow> formula list" where
  "req_constraints fv =
     (case map_of fv ''SecOC_Protection'' of Some v \<Rightarrow> [Holds v] | None \<Rightarrow> [])"

definition variant_constraints :: "(string \<times> bexp) list \<Rightarrow> (string \<times> bool) list \<Rightarrow> formula list" where
  "variant_constraints fv vsel =
     concat (map (\<lambda>(fname, val).
                    case map_of fv fname of Some v \<Rightarrow> [EqB v (BoolVal val)] | None \<Rightarrow> [])
                 vsel)"

definition empirical_constraints :: "EmpiricalBounds \<Rightarrow> string \<Rightarrow> rexp \<Rightarrow> formula list" where
  "empirical_constraints bounds variant_name lat =
     [GeI freshness_window_ms (IntVal (py_int (d1_min_interarrival_ms bounds))),
      LeR lat (RealVal (latency_bound bounds variant_name))]"

text \<open>
  Everything \<^verbatim>\<open>synthesize_variant\<close> does before \<^verbatim>\<open>s.check()\<close>: the dictionary of
  feature variables and the list of assertions added to the solver.
\<close>

definition solver_assertions ::
  "EmpiricalBounds \<Rightarrow> xml \<Rightarrow> string \<Rightarrow> error + ((string \<times> bexp) list \<times> formula list)" where
  "solver_assertions bounds doc variant_name =
     (case compile_feature_model doc of
        Inl e \<Rightarrow> Inl e
      | Inr (feature_vars, fm_constraints) \<Rightarrow>
          (let vsel = load_variant variant_name;
               (lat, latency_constraints) = build_latency_model bounds feature_vars
           in Inr (feature_vars,
                   fm_constraints
                   @ req_constraints feature_vars
                   @ variant_constraints feature_vars vsel
                   @ latency_constraints
                   @ empirical_constraints bounds variant_name lat)))"

text \<open>
  \<^verbatim>\<open>{k: m.evaluate(v, model_completion=True) for k, v in feature_vars.items()}\<close>. With
  model completion every variable has a value in the model, which is what a total
  \<open>bools\<close> component says.
\<close>

definition evaluate_all :: "(string \<times> bexp) list \<Rightarrow> z3model \<Rightarrow> (string \<times> bool) list" where
  "evaluate_all fv m = map (\<lambda>(k, v). (k, eval_b m v)) fv"

text \<open>
  The result is \<open>Inr (Some r)\<close> for a returned dictionary \<open>r\<close>, \<open>Inr None\<close> for the
  \<^verbatim>\<open>None\<close> the program returns when the solver does not answer \<^verbatim>\<open>sat\<close>, and \<open>Inl e\<close>
  for an exception.
\<close>

definition synthesize_variant ::
  "(formula list \<Rightarrow> z3model option) \<Rightarrow> EmpiricalBounds \<Rightarrow> xml \<Rightarrow> string
     \<Rightarrow> error + (string \<times> bool) list option" where
  "synthesize_variant solve bounds doc variant_name =
     (case solver_assertions bounds doc variant_name of
        Inl e \<Rightarrow> Inl e
      | Inr (feature_vars, cs) \<Rightarrow>
          (case solve cs of
             Some m \<Rightarrow> Inr (Some (evaluate_all feature_vars m))
           | None \<Rightarrow> Inr None))"

text \<open>
  The one assumption on the solver: a model it returns with \<^verbatim>\<open>sat\<close> satisfies every
  assertion. Nothing is assumed about when it answers \<^verbatim>\<open>sat\<close>.
\<close>

definition sound :: "(formula list \<Rightarrow> z3model option) \<Rightarrow> bool" where
  "sound solve = (\<forall>cs m. solve cs = Some m \<longrightarrow> satisfies m cs)"

subsection \<open>A sample request\<close>

text \<open>
  The feature model of the specification's scenario: two alternative groups, the
  security mechanism and a freshness mechanism, one requires edge between them. Added
  are a group without feature children and a requires edge that names an undeclared
  feature. The root carries a name, which the compiler's query does not reach.
\<close>

definition feature :: "string \<Rightarrow> xml" where
  "feature n = Element ''feature'' [(''name'', n)] []"

definition mac_group :: xml where
  "mac_group = Element ''alt'' [] [feature ''MAC_32'', feature ''MAC_64'', feature ''MAC_128'']"

definition aes_group :: xml where
  "aes_group = Element ''alt'' [] [feature ''AES_128'', feature ''AES_256'']"

definition empty_group :: xml where
  "empty_group = Element ''alt'' [] [Element ''note'' [] []]"

definition known_edge :: xml where
  "known_edge = Element ''requires'' [(''a'', ''SecOC_Protection''), (''b'', ''Fresh_Counter'')] []"

definition unknown_edge :: xml where
  "unknown_edge = Element ''requires'' [(''a'', ''SecOC_Protection''), (''b'', ''Typo'')] []"

definition sample_doc :: xml where
  "sample_doc = Element ''featureModel'' [(''name'', ''Stack'')]
     [mac_group, aes_group, empty_group,
      feature ''SecOC_Protection'', feature ''Fresh_Counter'',
      known_edge, unknown_edge]"

definition sample_fv :: "(string \<times> bexp) list" where
  "sample_fv = map (\<lambda>n. (n, Bool n))
     [''AES_128'', ''AES_256'', ''Fresh_Counter'', ''MAC_128'', ''MAC_32'', ''MAC_64'',
      ''SecOC_Protection'']"

definition sample_fm :: "formula list" where
  "sample_fm =
     [Or [Bool ''MAC_32'', Bool ''MAC_64'', Bool ''MAC_128''],
      EqI (Sum [IfI (Bool ''MAC_32'') (IntVal 1) (IntVal 0),
                IfI (Bool ''MAC_64'') (IntVal 1) (IntVal 0),
                IfI (Bool ''MAC_128'') (IntVal 1) (IntVal 0)]) (IntVal 1),
      Or [Bool ''AES_128'', Bool ''AES_256''],
      EqI (Sum [IfI (Bool ''AES_128'') (IntVal 1) (IntVal 0),
                IfI (Bool ''AES_256'') (IntVal 1) (IntVal 0)]) (IntVal 1),
      Implies (Bool ''SecOC_Protection'') (Bool ''Fresh_Counter'')]"

text \<open>Bounds with a global maximum of 3.5 ms, 3.0 ms for variant V3, and 5 ms between frames.\<close>

definition sample_bounds :: EmpiricalBounds where
  "sample_bounds =
     \<lparr>d1_mean_period_ms = 10, d1_min_interarrival_ms = 5, d1_max_interarrival_ms = 20,
      d2_max_auth_latency_ms = 35 / 10, d2_max_jitter_ms = 2 / 10,
      d3_max_latency_by_variant = [''V3'' \<mapsto> 3],
      d4_min_replay_interval_ms = 50\<rparr>"

text \<open>The same bounds with the two latency maxima raised to 4.0 ms and 3.2 ms.\<close>

definition relaxed_bounds :: EmpiricalBounds where
  "relaxed_bounds =
     sample_bounds\<lparr>d2_max_auth_latency_ms := 4, d3_max_latency_by_variant := [''V3'' \<mapsto> 32 / 10]\<rparr>"

text \<open>The sample bounds with 1.0 ms for variant V3, below every cost.\<close>

definition tight_bounds :: EmpiricalBounds where
  "tight_bounds = sample_bounds\<lparr>d3_max_latency_by_variant := [''V3'' \<mapsto> 1]\<rparr>"

text \<open>The sample bounds with a global maximum of 6.0 ms and no variant of its own.\<close>

definition loose_bounds :: EmpiricalBounds where
  "loose_bounds =
     sample_bounds\<lparr>d2_max_auth_latency_ms := 6, d3_max_latency_by_variant := Map.empty\<rparr>"

text \<open>The cheapest configuration: MAC_32, AES_128 and the counter, at 2.8 ms.\<close>

definition sample_model :: z3model where
  "sample_model =
     \<lparr>bools = (\<lambda>n. n \<in> set [''MAC_32'', ''AES_128'', ''SecOC_Protection'', ''Fresh_Counter'']),
      latency_val = 28 / 10, freshness_val = 5\<rparr>"

text \<open>
  A solver that tries one candidate model: it answers \<^verbatim>\<open>sat\<close> with the candidate when
  the candidate satisfies the assertions, and gives up otherwise.
\<close>

definition try_model :: "z3model \<Rightarrow> formula list \<Rightarrow> z3model option" where
  "try_model m cs = (if satisfies m cs then Some m else None)"

text \<open>What the program returns for the candidate: the feature part of the model.\<close>

definition sample_result :: "(string \<times> bool) list" where
  "sample_result =
     [(''AES_128'', True), (''AES_256'', False), (''Fresh_Counter'', True),
      (''MAC_128'', False), (''MAC_32'', True), (''MAC_64'', False),
      (''SecOC_Protection'', True)]"

text \<open>
  The assertions of the sample request for variant \<open>v\<close>, with \<open>B\<close> the bound on the
  latency.
\<close>

definition sample_assertions :: "string \<Rightarrow> real \<Rightarrow> formula list" where
  "sample_assertions v B =
     sample_fm @ [Holds (Bool ''SecOC_Protection'')]
     @ variant_constraints sample_fv (load_variant v)
     @ [EqR latency_ms
          (Add (Add (IfR (Bool ''MAC_32'') (RealVal (12 / 10))
                       (IfR (Bool ''MAC_64'') (RealVal (22 / 10)) (RealVal (32 / 10))))
                    (IfR (Bool ''AES_128'') (RealVal (9 / 10)) (RealVal (16 / 10))))
               (IfR (Bool ''Fresh_Counter'') (RealVal (7 / 10)) (RealVal (11 / 10)))),
        GeI freshness_window_ms (IntVal 5),
        LeR latency_ms (RealVal B)]"

text \<open>
  Two further documents: one whose group lists the same feature twice, and one whose
  root element is itself an alternative group.
\<close>

definition dup_group :: xml where
  "dup_group = Element ''alt'' [] [feature ''MAC_32'', feature ''MAC_32'']"

definition dup_doc :: xml where
  "dup_doc = Element ''featureModel'' [] [dup_group]"

definition root_alt_doc :: xml where
  "root_alt_doc = Element ''alt'' [] [feature ''AES_128'', feature ''AES_256'']"

text \<open>The model that makes every feature true.\<close>

definition all_true :: z3model where
  "all_true = \<lparr>bools = (\<lambda>n. True), latency_val = 0, freshness_val = 0\<rparr>"

section \<open>Properties\<close>

subsection \<open>The compiler never raises\<close>

text \<open>
  The dictionary holds \<^verbatim>\<open>Bool(name)\<close> under every declared name and nothing else.
\<close>

lemma map_of_make_feature_vars:
  "map_of (make_feature_vars names) k = (if k \<in> set names then Some (Bool k) else None)"
  by (simp add: make_feature_vars_def map_of_map_restrict restrict_map_def)

lemma keys_make_feature_vars: "set (map fst (make_feature_vars names)) = set names"
  by (simp add: make_feature_vars_def comp_def)

lemma distinct_keys_make_feature_vars: "distinct (map fst (make_feature_vars names))"
  by (simp add: make_feature_vars_def comp_def)

text \<open>
  The children of an alternative group lie below the root, so their names are declared
  and the subscript in the loop over the groups finds each of them.
\<close>

lemma kids_descendants:
  "e \<in> set (descendants d) \<Longrightarrow> c \<in> set (kids e) \<Longrightarrow> c \<in> set (descendants d)"
proof (induction d arbitrary: e rule: descendants.induct)
  case (1 t as cs)
  from "1.prems"(1) obtain k where k: "k \<in> set cs" and e: "e = k \<or> e \<in> set (descendants k)"
    by auto
  from e show ?case
  proof
    assume "e = k"
    with "1.prems"(2) have "c \<in> set (descendants k)"
      by (cases k) auto
    with k show ?thesis by auto
  next
    assume "e \<in> set (descendants k)"
    with "1.IH" k "1.prems"(2) have "c \<in> set (descendants k)" by blast
    with k show ?thesis by auto
  qed
qed

lemma child_feature_names_declared:
  assumes "alt \<in> set (descendants d)"
  shows "set (child_feature_names alt) \<subseteq> set (declared_names d)"
proof
  fix n assume "n \<in> set (child_feature_names alt)"
  then obtain c where c: "c \<in> set (kids alt)" and n: "get c ''name'' = Some n"
    by (auto simp: child_feature_names_def List.map_filter_def)
  from kids_descendants [OF assms c] n show "n \<in> set (declared_names d)"
    by (force simp: declared_names_def List.map_filter_def)
qed

lemma subscript_all_declared:
  "set ns \<subseteq> set names \<Longrightarrow> subscript_all (make_feature_vars names) ns = Inr (map Bool ns)"
  by (induction ns) (simp_all add: map_of_make_feature_vars)

lemma compile_alts_declared:
  "\<forall>alt \<in> set alts. set (child_feature_names alt) \<subseteq> set names \<Longrightarrow>
   compile_alts (make_feature_vars names) alts =
     Inr (concat (map (\<lambda>alt. alt_constraints (map Bool (child_feature_names alt))) alts))"
  by (induction alts) (simp_all add: subscript_all_declared)

lemma compile_feature_model_eq:
  "compile_feature_model d =
     Inr (make_feature_vars (declared_names d),
          concat (map (\<lambda>alt. alt_constraints (map Bool (child_feature_names alt))) (xpath_tag d ''alt''))
          @ concat (map (requires_constraints (make_feature_vars (declared_names d))) (xpath_tag d ''requires''))
          @ concat (map (excludes_constraints (make_feature_vars (declared_names d))) (xpath_tag d ''excludes'')))"
proof -
  have "\<forall>alt \<in> set (xpath_tag d ''alt''). set (child_feature_names alt) \<subseteq> set (declared_names d)"
    by (simp add: xpath_tag_def child_feature_names_declared)
  from compile_alts_declared [OF this] show ?thesis
    by (simp add: compile_feature_model_def Let_def)
qed

lemma compiled_fv:
  "compile_feature_model d = Inr (fv, cs) \<Longrightarrow> fv = make_feature_vars (declared_names d)"
  by (auto simp: compile_feature_model_eq)

lemma compiled_cs:
  "compile_feature_model d = Inr (fv, cs) \<Longrightarrow>
   cs = concat (map (\<lambda>alt. alt_constraints (map Bool (child_feature_names alt))) (xpath_tag d ''alt''))
        @ concat (map (requires_constraints fv) (xpath_tag d ''requires''))
        @ concat (map (excludes_constraints fv) (xpath_tag d ''excludes''))"
  by (auto simp: compile_feature_model_eq)

subsection \<open>Counting with indicator sums\<close>

lemma indicator_sum_count:
  "sum_list (map (\<lambda>c. if P c then (1::int) else 0) xs) = int (length (filter P xs))"
  by (induction xs) simp_all

lemma exactly_one_of_count:
  assumes "length (filter P xs) = 1"
  shows "\<exists>!x. x \<in> set xs \<and> P x"
proof -
  from assms obtain y where y: "filter P xs = [y]"
    by (cases "filter P xs") auto
  then have "\<And>x. x \<in> set (filter P xs) \<longleftrightarrow> x = y" by simp
  then have "\<And>x. (x \<in> set xs \<and> P x) \<longleftrightarrow> x = y" by simp
  then show ?thesis by simp
qed

lemma holds_sum_count:
  assumes "holds m (EqI (Sum (map (\<lambda>c. IfI c (IntVal 1) (IntVal 0)) C)) (IntVal 1))"
  shows "length (filter (eval_b m) C) = 1"
proof -
  from assms have "sum_list (map (\<lambda>c. if eval_b m c then (1::int) else 0) C) = 1"
    by (simp add: comp_def cong: if_cong)
  then show ?thesis
    by (simp add: indicator_sum_count)
qed

subsection \<open>Alternative groups\<close>

lemma sample_compiled: "compile_feature_model sample_doc = Inr (sample_fv, sample_fm)"
  by code_simp

lemma sample_alts: "xpath_tag sample_doc ''alt'' = [mac_group, aes_group, empty_group]"
  by code_simp

text \<open>
  Read over the set of children, and for every group of the document, the property fails
  on the program. A group that lists \<^verbatim>\<open>MAC_32\<close> twice compiles to a sum with two
  indicators of the same variable, which no model satisfies, while the constraints over
  the set \<open>{MAC_32}\<close> hold when the feature is true. A root element that is itself an
  alternative group is not reached by \<^verbatim>\<open>.//alt\<close>: nothing is emitted for it, and the
  model that makes both of its members true satisfies the compiled constraints.
\<close>

theorem alt_group_set_counterexample:
  "compile_feature_model dup_doc =
     Inr ([(''MAC_32'', Bool ''MAC_32'')],
          [Or [Bool ''MAC_32'', Bool ''MAC_32''],
           EqI (Sum [IfI (Bool ''MAC_32'') (IntVal 1) (IntVal 0),
                     IfI (Bool ''MAC_32'') (IntVal 1) (IntVal 0)]) (IntVal 1)]) \<and>
   alt_constraints_spec [Bool ''MAC_32'', Bool ''MAC_32''] =
     [Or [Bool ''MAC_32''],
      EqI (Sum [IfI (Bool ''MAC_32'') (IntVal 1) (IntVal 0)]) (IntVal 1)] \<and>
   EqI (Sum [IfI (Bool ''MAC_32'') (IntVal 1) (IntVal 0)]) (IntVal 1)
     \<notin> set [Or [Bool ''MAC_32'', Bool ''MAC_32''],
              EqI (Sum [IfI (Bool ''MAC_32'') (IntVal 1) (IntVal 0),
                        IfI (Bool ''MAC_32'') (IntVal 1) (IntVal 0)]) (IntVal 1)] \<and>
   satisfies all_true (alt_constraints_spec [Bool ''MAC_32'', Bool ''MAC_32'']) \<and>
   (\<nexists>m. satisfies m [Or [Bool ''MAC_32'', Bool ''MAC_32''],
                       EqI (Sum [IfI (Bool ''MAC_32'') (IntVal 1) (IntVal 0),
                                 IfI (Bool ''MAC_32'') (IntVal 1) (IntVal 0)]) (IntVal 1)]) \<and>
   xpath_tag root_alt_doc ''alt'' = [] \<and>
   compile_feature_model root_alt_doc =
     Inr ([(''AES_128'', Bool ''AES_128''), (''AES_256'', Bool ''AES_256'')], []) \<and>
   satisfies all_true [] \<and>
   eval_b all_true (Bool ''AES_128'') \<and> eval_b all_true (Bool ''AES_256'')"
proof -
  have a: "compile_feature_model dup_doc =
     Inr ([(''MAC_32'', Bool ''MAC_32'')],
          [Or [Bool ''MAC_32'', Bool ''MAC_32''],
           EqI (Sum [IfI (Bool ''MAC_32'') (IntVal 1) (IntVal 0),
                     IfI (Bool ''MAC_32'') (IntVal 1) (IntVal 0)]) (IntVal 1)])"
    by code_simp
  have b: "alt_constraints_spec [Bool ''MAC_32'', Bool ''MAC_32''] =
     [Or [Bool ''MAC_32''],
      EqI (Sum [IfI (Bool ''MAC_32'') (IntVal 1) (IntVal 0)]) (IntVal 1)]"
    by (simp add: alt_constraints_spec_def alt_constraints_def)
  have c: "satisfies all_true (alt_constraints_spec [Bool ''MAC_32'', Bool ''MAC_32''])"
    unfolding b by (simp add: satisfies_def all_true_def)
  have d: "\<nexists>m. satisfies m [Or [Bool ''MAC_32'', Bool ''MAC_32''],
                       EqI (Sum [IfI (Bool ''MAC_32'') (IntVal 1) (IntVal 0),
                                 IfI (Bool ''MAC_32'') (IntVal 1) (IntVal 0)]) (IntVal 1)]"
    by (simp add: satisfies_def)
  have e: "xpath_tag root_alt_doc ''alt'' = []"
    by code_simp
  have f: "compile_feature_model root_alt_doc =
     Inr ([(''AES_128'', Bool ''AES_128''), (''AES_256'', Bool ''AES_256'')], [])"
    by code_simp
  have g: "satisfies all_true []"
    by (simp add: satisfies_def)
  have h: "eval_b all_true (Bool ''AES_128'')" "eval_b all_true (Bool ''AES_256'')"
    by (simp_all add: all_true_def)
  from a b c d e f g h show ?thesis by simp
qed

text \<open>
  Claim C1, as the program has it. For an alternative group below the root, the
  subscripts of the loop succeed with the list \<open>C\<close> of the group's feature children, one
  entry per child element. When \<open>C\<close> is not empty, the compiled constraints contain
  \<^verbatim>\<open>Or(C)\<close> and \<^verbatim>\<open>Sum([If(c, 1, 0) for c in C]) == 1\<close> over that list, and in every
  model of the compiled constraints exactly one entry of \<open>C\<close> is true, hence exactly one
  member of the group. When \<open>C\<close> is empty, the group emits no constraint.
\<close>

theorem alt_group_exactly_one:
  assumes "compile_feature_model doc = Inr (fv, cs)"
    and "alt \<in> set (xpath_tag doc ''alt'')"
  shows "\<exists>C. subscript_all fv (child_feature_names alt) = Inr C \<and>
           C = map Bool (child_feature_names alt) \<and>
           (C \<noteq> [] \<longrightarrow>
              Or C \<in> set cs \<and>
              EqI (Sum (map (\<lambda>c. IfI c (IntVal 1) (IntVal 0)) C)) (IntVal 1) \<in> set cs \<and>
              (\<forall>m. satisfies m cs \<longrightarrow>
                 length (filter (eval_b m) C) = 1 \<and> (\<exists>!c. c \<in> set C \<and> eval_b m c))) \<and>
           (C = [] \<longrightarrow> compile_alts fv [alt] = Inr [])"
proof -
  let ?C = "map Bool (child_feature_names alt)"
  let ?sum = "EqI (Sum (map (\<lambda>c. IfI c (IntVal 1) (IntVal 0)) ?C)) (IntVal 1)"
  note fv = compiled_fv [OF assms(1)] and cs = compiled_cs [OF assms(1)]
  from assms(2) have "alt \<in> set (descendants doc)"
    by (simp add: xpath_tag_def)
  then have sub: "subscript_all fv (child_feature_names alt) = Inr ?C"
    unfolding fv by (intro subscript_all_declared child_feature_names_declared)
  have emitted: "set (alt_constraints ?C) \<subseteq> set cs"
    using assms(2) unfolding cs by auto
  have one: "Or ?C \<in> set cs \<and> ?sum \<in> set cs \<and>
             (\<forall>m. satisfies m cs \<longrightarrow>
                length (filter (eval_b m) ?C) = 1 \<and> (\<exists>!c. c \<in> set ?C \<and> eval_b m c))"
    if "?C \<noteq> []"
  proof -
    from that emitted have mem: "Or ?C \<in> set cs" "?sum \<in> set cs"
      by (simp_all add: alt_constraints_def)
    have "length (filter (eval_b m) ?C) = 1 \<and> (\<exists>!c. c \<in> set ?C \<and> eval_b m c)"
      if "satisfies m cs" for m
    proof -
      from that mem(2) have "holds m ?sum"
        unfolding satisfies_def list_all_iff by blast
      then have "length (filter (eval_b m) ?C) = 1"
        by (rule holds_sum_count)
      then show ?thesis
        using exactly_one_of_count by blast
    qed
    with mem show ?thesis by blast
  qed
  have none: "compile_alts fv [alt] = Inr []" if "?C = []"
    using that sub by (simp add: alt_constraints_def)
  from sub one none show ?thesis by blast
qed

theorem alt_group_exactly_one_witness:
  "compile_feature_model sample_doc = Inr (sample_fv, sample_fm) \<and>
   mac_group \<in> set (xpath_tag sample_doc ''alt'') \<and>
   empty_group \<in> set (xpath_tag sample_doc ''alt'') \<and>
   subscript_all sample_fv (child_feature_names mac_group)
     = Inr [Bool ''MAC_32'', Bool ''MAC_64'', Bool ''MAC_128''] \<and>
   Or [Bool ''MAC_32'', Bool ''MAC_64'', Bool ''MAC_128''] \<in> set sample_fm \<and>
   satisfies sample_model sample_fm \<and>
   length (filter (eval_b sample_model) [Bool ''MAC_32'', Bool ''MAC_64'', Bool ''MAC_128'']) = 1 \<and>
   (\<exists>!c. c \<in> set [Bool ''MAC_32'', Bool ''MAC_64'', Bool ''MAC_128''] \<and> eval_b sample_model c) \<and>
   subscript_all sample_fv (child_feature_names empty_group) = Inr [] \<and>
   compile_alts sample_fv [empty_group] = Inr []"
proof -
  let ?C = "[Bool ''MAC_32'', Bool ''MAC_64'', Bool ''MAC_128'']"
  have mac: "mac_group \<in> set (xpath_tag sample_doc ''alt'')"
    and emp: "empty_group \<in> set (xpath_tag sample_doc ''alt'')"
    by (simp_all add: sample_alts)
  have sub_mac: "subscript_all sample_fv (child_feature_names mac_group) = Inr ?C"
    by code_simp
  have sub_emp: "subscript_all sample_fv (child_feature_names empty_group) = Inr []"
    by code_simp
  have sat: "satisfies sample_model sample_fm"
    by code_simp
  from alt_group_exactly_one [OF sample_compiled mac] obtain C
    where c: "subscript_all sample_fv (child_feature_names mac_group) = Inr C"
      and g: "C \<noteq> [] \<longrightarrow>
          Or C \<in> set sample_fm \<and>
          EqI (Sum (map (\<lambda>c. IfI c (IntVal 1) (IntVal 0)) C)) (IntVal 1) \<in> set sample_fm \<and>
          (\<forall>m. satisfies m sample_fm \<longrightarrow>
             length (filter (eval_b m) C) = 1 \<and> (\<exists>!c. c \<in> set C \<and> eval_b m c))"
    by blast
  from c sub_mac have C: "C = ?C" by simp
  from g have "Or ?C \<in> set sample_fm"
    and all: "\<forall>m. satisfies m sample_fm \<longrightarrow>
             length (filter (eval_b m) ?C) = 1 \<and> (\<exists>!c. c \<in> set ?C \<and> eval_b m c)"
    unfolding C by blast+
  moreover from all sat have "length (filter (eval_b sample_model) ?C) = 1"
    and "\<exists>!c. c \<in> set ?C \<and> eval_b sample_model c"
    by blast+
  moreover from alt_group_exactly_one [OF sample_compiled emp] obtain D
    where d: "subscript_all sample_fv (child_feature_names empty_group) = Inr D"
      and n: "D = [] \<longrightarrow> compile_alts sample_fv [empty_group] = Inr []"
    by blast
  from d sub_emp have "D = []" by simp
  with n have "compile_alts sample_fv [empty_group] = Inr []" by blast
  ultimately show ?thesis
    using sample_compiled mac emp sub_mac sat sub_emp by blast
qed

subsection \<open>The assertions given to the solver\<close>

lemma solver_assertions_eq:
  assumes "compile_feature_model d = Inr (fv, fm)"
  shows "solver_assertions bounds d v =
           Inr (fv, fm @ req_constraints fv @ variant_constraints fv (load_variant v)
                    @ [EqR latency_ms (Add (Add (mac_cost fv) (aes_cost fv)) (fr_cost fv))]
                    @ empirical_constraints bounds v latency_ms)"
  using assms by (simp add: solver_assertions_def build_latency_model_def Let_def)

lemma solver_assertions_parts:
  assumes "solver_assertions bounds d v = Inr (fv, cs)"
  obtains fm where "compile_feature_model d = Inr (fv, fm)"
    and "cs = fm @ req_constraints fv @ variant_constraints fv (load_variant v)
               @ [EqR latency_ms (Add (Add (mac_cost fv) (aes_cost fv)) (fr_cost fv))]
               @ empirical_constraints bounds v latency_ms"
proof -
  obtain fv' fm where c: "compile_feature_model d = Inr (fv', fm)"
    using compile_feature_model_eq by blast
  from solver_assertions_eq [OF c, of bounds v] assms have "fv' = fv"
    and "cs = fm @ req_constraints fv @ variant_constraints fv (load_variant v)
               @ [EqR latency_ms (Add (Add (mac_cost fv) (aes_cost fv)) (fr_cost fv))]
               @ empirical_constraints bounds v latency_ms"
    by simp_all
  with c that show thesis by blast
qed

lemma synthesize_variant_Some:
  assumes "synthesize_variant solve bounds d v = Inr (Some r)"
  obtains fv cs m where "solver_assertions bounds d v = Inr (fv, cs)"
    and "solve cs = Some m" and "r = evaluate_all fv m"
  using assms unfolding synthesize_variant_def
  by (auto split: sum.splits option.splits prod.splits)

lemma soundD: "sound solve \<Longrightarrow> solve cs = Some m \<Longrightarrow> satisfies m cs"
  by (simp add: sound_def)

lemma satisfiesD: "satisfies m cs \<Longrightarrow> c \<in> set cs \<Longrightarrow> holds m c"
  by (simp add: satisfies_def list_all_iff)

lemma satisfies_Nil [simp]: "satisfies m []"
  by (simp add: satisfies_def)

lemma satisfies_Cons [simp]: "satisfies m (c # cs) \<longleftrightarrow> holds m c \<and> satisfies m cs"
  by (simp add: satisfies_def)

lemma satisfies_append [simp]: "satisfies m (xs @ ys) \<longleftrightarrow> satisfies m xs \<and> satisfies m ys"
  by (simp add: satisfies_def)

lemma map_of_evaluate_all:
  "map_of (evaluate_all (make_feature_vars names) m) k =
     (if k \<in> set names then Some (bools m k) else None)"
proof -
  have "evaluate_all (make_feature_vars names) m
          = map (\<lambda>k. (k, bools m k)) (sort (remdups names))"
    by (simp add: evaluate_all_def make_feature_vars_def)
  then show ?thesis
    by (simp add: map_of_map_restrict restrict_map_def)
qed

subsection \<open>The sample request, evaluated\<close>

lemma sound_try_model: "sound (try_model m)"
  by (simp add: sound_def try_model_def)

lemma sample_V3:
  "synthesize_variant (try_model sample_model) sample_bounds sample_doc ''V3'' = Inr (Some sample_result)"
  by code_simp

lemma sample_V1:
  "synthesize_variant (try_model sample_model) sample_bounds sample_doc ''V1'' = Inr (Some sample_result)"
  by code_simp

lemma sample_V99:
  "synthesize_variant (try_model sample_model) sample_bounds sample_doc ''V99'' = Inr (Some sample_result)"
  by code_simp

lemma sample_declared:
  "declared_names sample_doc =
     [''MAC_32'', ''MAC_64'', ''MAC_128'', ''AES_128'', ''AES_256'', ''SecOC_Protection'', ''Fresh_Counter'']"
  by code_simp

subsection \<open>Policy, preset and empirical constraints\<close>

lemma variant_constraints_mem:
  "(n, b) \<in> set vsel \<Longrightarrow> map_of fv n = Some v \<Longrightarrow>
   EqB v (BoolVal b) \<in> set (variant_constraints fv vsel)"
  by (force simp: variant_constraints_def)

text \<open>
  What a returned dictionary is: the feature part of a model that the solver returned
  for the assertions of the request, which the model satisfies when the solver is sound.
\<close>

lemma returned_model:
  assumes "sound solve" and "synthesize_variant solve bounds d v = Inr (Some r)"
  obtains fv fm cs m where "fv = make_feature_vars (declared_names d)"
    and "compile_feature_model d = Inr (fv, fm)"
    and "cs = fm @ req_constraints fv @ variant_constraints fv (load_variant v)
               @ [EqR latency_ms (Add (Add (mac_cost fv) (aes_cost fv)) (fr_cost fv))]
               @ empirical_constraints bounds v latency_ms"
    and "solver_assertions bounds d v = Inr (fv, cs)"
    and "solve cs = Some m" and "satisfies m cs" and "r = evaluate_all fv m"
proof -
  from assms(2) obtain fv cs m where sa: "solver_assertions bounds d v = Inr (fv, cs)"
    and m: "solve cs = Some m" and r: "r = evaluate_all fv m"
    by (rule synthesize_variant_Some)
  from sa obtain fm where c: "compile_feature_model d = Inr (fv, fm)"
    and cs: "cs = fm @ req_constraints fv @ variant_constraints fv (load_variant v)
               @ [EqR latency_ms (Add (Add (mac_cost fv) (aes_cost fv)) (fr_cost fv))]
               @ empirical_constraints bounds v latency_ms"
    by (rule solver_assertions_parts)
  from compiled_fv [OF c] c cs sa m soundD [OF assms(1) m] r that show thesis
    by blast
qed

text \<open>
  Claim C2. When \<^verbatim>\<open>SecOC_Protection\<close> is a declared feature, every dictionary the
  program returns maps it to true, whatever the variant identifier and its preset.
\<close>

theorem secoc_forced:
  assumes "sound solve"
    and "synthesize_variant solve bounds doc variant_name = Inr (Some r)"
    and "''SecOC_Protection'' \<in> set (declared_names doc)"
  shows "map_of r ''SecOC_Protection'' = Some True"
proof -
  from assms(1,2) obtain fv fm cs m where fv: "fv = make_feature_vars (declared_names doc)"
    and cs: "cs = fm @ req_constraints fv @ variant_constraints fv (load_variant variant_name)
               @ [EqR latency_ms (Add (Add (mac_cost fv) (aes_cost fv)) (fr_cost fv))]
               @ empirical_constraints bounds variant_name latency_ms"
    and sat: "satisfies m cs" and r: "r = evaluate_all fv m"
    by (rule returned_model)
  from sat have req: "satisfies m (req_constraints fv)"
    unfolding cs by simp
  from assms(3) have "map_of fv ''SecOC_Protection'' = Some (Bool ''SecOC_Protection'')"
    unfolding fv by (simp add: map_of_make_feature_vars)
  with req have "bools m ''SecOC_Protection''"
    by (simp add: req_constraints_def satisfies_def)
  with assms(3) show ?thesis
    unfolding r fv by (simp add: map_of_evaluate_all)
qed

theorem secoc_forced_witness:
  "sound (try_model sample_model) \<and>
   synthesize_variant (try_model sample_model) sample_bounds sample_doc ''V1'' = Inr (Some sample_result) \<and>
   ''SecOC_Protection'' \<in> set (declared_names sample_doc) \<and>
   map_of sample_result ''SecOC_Protection'' = Some True"
proof -
  have d: "''SecOC_Protection'' \<in> set (declared_names sample_doc)"
    by (simp add: sample_declared)
  from secoc_forced [OF sound_try_model sample_V1 d] sound_try_model sample_V1 d
  show ?thesis by simp
qed

text \<open>
  Claim C3. In every model the solver returns to \<^verbatim>\<open>synthesize_variant\<close> for variant
  \<open>v\<close>, the value of \<^verbatim>\<open>latency_ms\<close> is at most the minimum of the global maximum and the
  maximum recorded for \<open>v\<close>, the global maximum standing in when \<open>v\<close> is no key of the
  per-variant map.
\<close>

theorem latency_within_bound:
  assumes "sound solve"
    and "synthesize_variant solve bounds doc v = Inr (Some r)"
  shows "\<exists>fv cs m. solver_assertions bounds doc v = Inr (fv, cs) \<and> solve cs = Some m \<and>
           r = evaluate_all fv m \<and>
           latency_val m \<le> min (d2_max_auth_latency_ms bounds)
                               (case d3_max_latency_by_variant bounds v of
                                  Some x \<Rightarrow> x
                                | None \<Rightarrow> d2_max_auth_latency_ms bounds)"
proof -
  from assms obtain fv fm cs m where
    cs: "cs = fm @ req_constraints fv @ variant_constraints fv (load_variant v)
               @ [EqR latency_ms (Add (Add (mac_cost fv) (aes_cost fv)) (fr_cost fv))]
               @ empirical_constraints bounds v latency_ms"
    and sa: "solver_assertions bounds doc v = Inr (fv, cs)"
    and m: "solve cs = Some m" and sat: "satisfies m cs" and r: "r = evaluate_all fv m"
    by (rule returned_model)
  from sat have "satisfies m (empirical_constraints bounds v latency_ms)"
    unfolding cs by simp
  then have "latency_val m \<le> min (d2_max_auth_latency_ms bounds)
                               (case d3_max_latency_by_variant bounds v of
                                  Some x \<Rightarrow> x
                                | None \<Rightarrow> d2_max_auth_latency_ms bounds)"
    by (simp add: empirical_constraints_def satisfies_def latency_bound_def)
  with sa m r show ?thesis by blast
qed

lemma sample_solver_assertions:
  "solver_assertions sample_bounds sample_doc ''V3'' = Inr (sample_fv, sample_assertions ''V3'' 3)"
  by code_simp

lemma sample_satisfies: "satisfies sample_model (sample_assertions ''V3'' 3)"
  by code_simp

lemma sample_solved:
  "try_model sample_model (sample_assertions ''V3'' 3) = Some sample_model"
  by (simp add: try_model_def sample_satisfies)

theorem latency_within_bound_witness:
  "sound (try_model sample_model) \<and>
   synthesize_variant (try_model sample_model) sample_bounds sample_doc ''V3'' = Inr (Some sample_result) \<and>
   solver_assertions sample_bounds sample_doc ''V3'' = Inr (sample_fv, sample_assertions ''V3'' 3) \<and>
   try_model sample_model (sample_assertions ''V3'' 3) = Some sample_model \<and>
   sample_result = evaluate_all sample_fv sample_model \<and>
   latency_val sample_model \<le> min (35 / 10) 3"
proof -
  from latency_within_bound [OF sound_try_model sample_V3]
  have "latency_val sample_model
          \<le> min (d2_max_auth_latency_ms sample_bounds)
                (case d3_max_latency_by_variant sample_bounds ''V3'' of
                   Some x \<Rightarrow> x
                 | None \<Rightarrow> d2_max_auth_latency_ms sample_bounds)"
    by (simp add: sample_solver_assertions sample_solved)
  then have "latency_val sample_model \<le> min (35 / 10) 3"
    by (simp add: sample_bounds_def)
  moreover have "sample_result = evaluate_all sample_fv sample_model"
    by code_simp
  ultimately show ?thesis
    using sound_try_model sample_V3 sample_solver_assertions sample_solved by simp
qed

text \<open>
  Claim C4. For every pair \<open>(name, value)\<close> of the requested variant's preset whose name
  is a declared feature, a returned dictionary maps \<open>name\<close> to \<open>value\<close>.
\<close>

theorem preset_respected:
  assumes "sound solve"
    and "synthesize_variant solve bounds doc v = Inr (Some r)"
    and "(name, val) \<in> set (load_variant v)"
    and "name \<in> set (declared_names doc)"
  shows "map_of r name = Some val"
proof -
  from assms(1,2) obtain fv fm cs m where fv: "fv = make_feature_vars (declared_names doc)"
    and cs: "cs = fm @ req_constraints fv @ variant_constraints fv (load_variant v)
               @ [EqR latency_ms (Add (Add (mac_cost fv) (aes_cost fv)) (fr_cost fv))]
               @ empirical_constraints bounds v latency_ms"
    and sat: "satisfies m cs" and r: "r = evaluate_all fv m"
    by (rule returned_model)
  from assms(4) have "map_of fv name = Some (Bool name)"
    unfolding fv by (simp add: map_of_make_feature_vars)
  with assms(3) have "EqB (Bool name) (BoolVal val) \<in> set (variant_constraints fv (load_variant v))"
    by (rule variant_constraints_mem)
  then have "EqB (Bool name) (BoolVal val) \<in> set cs"
    unfolding cs by simp
  with sat have "holds m (EqB (Bool name) (BoolVal val))"
    by (rule satisfiesD)
  then have "bools m name = val" by simp
  with assms(4) show ?thesis
    unfolding r fv by (simp add: map_of_evaluate_all)
qed

theorem preset_respected_witness:
  "sound (try_model sample_model) \<and>
   synthesize_variant (try_model sample_model) sample_bounds sample_doc ''V1'' = Inr (Some sample_result) \<and>
   (''AES_128'', True) \<in> set (load_variant ''V1'') \<and>
   ''AES_128'' \<in> set (declared_names sample_doc) \<and>
   map_of sample_result ''AES_128'' = Some True"
proof -
  have p: "(''AES_128'', True) \<in> set (load_variant ''V1'')"
    by (simp add: load_variant_def)
  have d: "''AES_128'' \<in> set (declared_names sample_doc)"
    by (simp add: sample_declared)
  from preset_respected [OF sound_try_model sample_V1 p d] sound_try_model sample_V1 p d
  show ?thesis by simp
qed

subsection \<open>Freshness window and latency bound\<close>

lemma py_int_ge_floor: "\<lfloor>x\<rfloor> \<le> py_int x"
  by (simp add: py_int_def floor_le_ceiling)

text \<open>
  Claim C5. The assertions contain \<^verbatim>\<open>freshness_window_ms >= int(d1_min_interarrival_ms)\<close>.
  Python's \<^verbatim>\<open>int\<close> is the floor on a minimum that is not negative and lies above the
  floor otherwise, so in every model the solver returns the freshness window is at least
  the floor of the minimum; it is at least 5 when the minimum is 5 ms.
\<close>

theorem freshness_lower_bound:
  assumes "sound solve"
    and "solver_assertions bounds doc v = Inr (fv, cs)"
    and "solve cs = Some m"
  shows "GeI freshness_window_ms (IntVal (py_int (d1_min_interarrival_ms bounds))) \<in> set cs \<and>
         (0 \<le> d1_min_interarrival_ms bounds \<longrightarrow>
            py_int (d1_min_interarrival_ms bounds) = \<lfloor>d1_min_interarrival_ms bounds\<rfloor>) \<and>
         \<lfloor>d1_min_interarrival_ms bounds\<rfloor> \<le> freshness_val m \<and>
         (d1_min_interarrival_ms bounds = 5 \<longrightarrow> 5 \<le> freshness_val m)"
proof -
  let ?c = "GeI freshness_window_ms (IntVal (py_int (d1_min_interarrival_ms bounds)))"
  from assms(2) obtain fm where
    "cs = fm @ req_constraints fv @ variant_constraints fv (load_variant v)
             @ [EqR latency_ms (Add (Add (mac_cost fv) (aes_cost fv)) (fr_cost fv))]
             @ empirical_constraints bounds v latency_ms"
    by (rule solver_assertions_parts)
  then have mem: "?c \<in> set cs"
    by (simp add: empirical_constraints_def)
  from soundD [OF assms(1,3)] mem have "holds m ?c"
    by (rule satisfiesD)
  then have ge: "py_int (d1_min_interarrival_ms bounds) \<le> freshness_val m"
    by simp
  with py_int_ge_floor [of "d1_min_interarrival_ms bounds"]
  have fl: "\<lfloor>d1_min_interarrival_ms bounds\<rfloor> \<le> freshness_val m"
    by linarith
  have "5 \<le> freshness_val m" if "d1_min_interarrival_ms bounds = 5"
    using fl that by simp
  with mem fl show ?thesis
    by (simp add: py_int_def)
qed

theorem freshness_lower_bound_witness:
  "sound (try_model sample_model) \<and>
   solver_assertions sample_bounds sample_doc ''V3'' = Inr (sample_fv, sample_assertions ''V3'' 3) \<and>
   try_model sample_model (sample_assertions ''V3'' 3) = Some sample_model \<and>
   d1_min_interarrival_ms sample_bounds = 5 \<and>
   GeI freshness_window_ms (IntVal 5) \<in> set (sample_assertions ''V3'' 3) \<and>
   5 \<le> freshness_val sample_model"
proof -
  have d: "d1_min_interarrival_ms sample_bounds = 5"
    by (simp add: sample_bounds_def)
  have "py_int 5 = 5"
    by (simp add: py_int_def)
  with freshness_lower_bound [OF sound_try_model sample_solver_assertions sample_solved] d
  have "GeI freshness_window_ms (IntVal 5) \<in> set (sample_assertions ''V3'' 3)"
    and "5 \<le> freshness_val sample_model"
    by simp_all
  with sound_try_model sample_solver_assertions sample_solved d show ?thesis
    by simp
qed

text \<open>
  Claim C6. Two requests for the same document and variant whose bounds agree on the
  minimum inter-arrival time differ in the last assertion only, the bound on the latency.
  When the first is satisfiable and the second has the larger bound, the second is
  satisfiable.
\<close>

theorem bound_relaxation:
  assumes "solver_assertions b doc v = Inr (fv, cs)"
    and "solver_assertions b' doc v = Inr (fv', cs')"
    and "d1_min_interarrival_ms b' = d1_min_interarrival_ms b"
    and "latency_bound b v < latency_bound b' v"
    and "\<exists>m. satisfies m cs"
  shows "fv' = fv \<and>
         (\<exists>pre. cs = pre @ [LeR latency_ms (RealVal (latency_bound b v))] \<and>
                cs' = pre @ [LeR latency_ms (RealVal (latency_bound b' v))]) \<and>
         (\<exists>m. satisfies m cs')"
proof -
  from assms(1) obtain fm where c: "compile_feature_model doc = Inr (fv, fm)"
    and cs: "cs = fm @ req_constraints fv @ variant_constraints fv (load_variant v)
               @ [EqR latency_ms (Add (Add (mac_cost fv) (aes_cost fv)) (fr_cost fv))]
               @ empirical_constraints b v latency_ms"
    by (rule solver_assertions_parts)
  from assms(2) obtain fm' where c': "compile_feature_model doc = Inr (fv', fm')"
    and cs': "cs' = fm' @ req_constraints fv' @ variant_constraints fv' (load_variant v)
               @ [EqR latency_ms (Add (Add (mac_cost fv') (aes_cost fv')) (fr_cost fv'))]
               @ empirical_constraints b' v latency_ms"
    by (rule solver_assertions_parts)
  from c c' have same: "fv' = fv" "fm' = fm" by simp_all
  define pre where "pre = fm @ req_constraints fv @ variant_constraints fv (load_variant v)
               @ [EqR latency_ms (Add (Add (mac_cost fv) (aes_cost fv)) (fr_cost fv)),
                  GeI freshness_window_ms (IntVal (py_int (d1_min_interarrival_ms b)))]"
  have split: "cs = pre @ [LeR latency_ms (RealVal (latency_bound b v))]"
    "cs' = pre @ [LeR latency_ms (RealVal (latency_bound b' v))]"
    unfolding cs cs' same pre_def by (simp_all add: empirical_constraints_def assms(3))
  from assms(5) obtain m where "satisfies m cs" ..
  then have "satisfies m pre" and "latency_val m \<le> latency_bound b v"
    unfolding split by simp_all
  with assms(4) have "satisfies m cs'"
    unfolding split by simp
  with same split show ?thesis by blast
qed

lemma relaxed_solver_assertions:
  "solver_assertions relaxed_bounds sample_doc ''V3'' = Inr (sample_fv, sample_assertions ''V3'' (32 / 10))"
  by code_simp

theorem bound_relaxation_witness:
  "solver_assertions sample_bounds sample_doc ''V3'' = Inr (sample_fv, sample_assertions ''V3'' 3) \<and>
   solver_assertions relaxed_bounds sample_doc ''V3'' = Inr (sample_fv, sample_assertions ''V3'' (32 / 10)) \<and>
   d1_min_interarrival_ms relaxed_bounds = d1_min_interarrival_ms sample_bounds \<and>
   latency_bound sample_bounds ''V3'' < latency_bound relaxed_bounds ''V3'' \<and>
   (\<exists>m. satisfies m (sample_assertions ''V3'' 3)) \<and>
   (\<exists>m. satisfies m (sample_assertions ''V3'' (32 / 10)))"
proof -
  have d: "d1_min_interarrival_ms relaxed_bounds = d1_min_interarrival_ms sample_bounds"
    by (simp add: relaxed_bounds_def)
  have lt: "latency_bound sample_bounds ''V3'' < latency_bound relaxed_bounds ''V3''"
    by (simp add: latency_bound_def relaxed_bounds_def sample_bounds_def)
  have ex: "\<exists>m. satisfies m (sample_assertions ''V3'' 3)"
    using sample_satisfies by blast
  from bound_relaxation [OF sample_solver_assertions relaxed_solver_assertions d lt ex]
    sample_solver_assertions relaxed_solver_assertions d lt ex
  show ?thesis by simp
qed

subsection \<open>Requires edges\<close>

lemma requires_constraints_known:
  assumes "get req ''a'' = Some a" and "get req ''b'' = Some b"
    and "a \<in> set names" and "b \<in> set names"
  shows "requires_constraints (make_feature_vars names) req = [Implies (Bool a) (Bool b)]"
  using assms by (simp add: requires_constraints_def map_of_make_feature_vars)

lemma requires_constraints_unknown:
  assumes "(\<nexists>a. get req ''a'' = Some a \<and> a \<in> set names) \<or>
           (\<nexists>b. get req ''b'' = Some b \<and> b \<in> set names)"
  shows "requires_constraints (make_feature_vars names) req = []"
  using assms
  by (auto simp: requires_constraints_def map_of_make_feature_vars split: option.splits)

text \<open>
  Claim C7. The compiler returns without an exception. For a requires declaration of
  the document whose attributes \<^verbatim>\<open>a\<close> and \<^verbatim>\<open>b\<close> both name declared features, the
  compiled constraints contain \<^verbatim>\<open>Implies(a, b)\<close>, so every model of them that makes
  \<^verbatim>\<open>a\<close> true makes \<^verbatim>\<open>b\<close> true. A declaration with an attribute that is missing or names
  no declared feature emits nothing.
\<close>

theorem requires_edge:
  "\<exists>fv cs. compile_feature_model doc = Inr (fv, cs) \<and>
     (\<forall>req \<in> set (xpath_tag doc ''requires'').
        (\<forall>a b. get req ''a'' = Some a \<and> get req ''b'' = Some b \<and>
               a \<in> set (declared_names doc) \<and> b \<in> set (declared_names doc) \<longrightarrow>
           requires_constraints fv req = [Implies (Bool a) (Bool b)] \<and>
           Implies (Bool a) (Bool b) \<in> set cs \<and>
           (\<forall>m. satisfies m cs \<longrightarrow> bools m a \<longrightarrow> bools m b)) \<and>
        ((\<nexists>a. get req ''a'' = Some a \<and> a \<in> set (declared_names doc)) \<or>
         (\<nexists>b. get req ''b'' = Some b \<and> b \<in> set (declared_names doc)) \<longrightarrow>
           requires_constraints fv req = []))"
proof -
  obtain fv cs where c: "compile_feature_model doc = Inr (fv, cs)"
    using compile_feature_model_eq by blast
  note fv = compiled_fv [OF c] and cs = compiled_cs [OF c]
  have known: "requires_constraints fv req = [Implies (Bool a) (Bool b)] \<and>
               Implies (Bool a) (Bool b) \<in> set cs \<and>
               (\<forall>m. satisfies m cs \<longrightarrow> bools m a \<longrightarrow> bools m b)"
    if req: "req \<in> set (xpath_tag doc ''requires'')"
      and ab: "get req ''a'' = Some a \<and> get req ''b'' = Some b \<and>
               a \<in> set (declared_names doc) \<and> b \<in> set (declared_names doc)"
    for req a b
  proof -
    from ab have e: "requires_constraints fv req = [Implies (Bool a) (Bool b)]"
      unfolding fv by (simp add: requires_constraints_known)
    with req have mem: "Implies (Bool a) (Bool b) \<in> set cs"
      by (subst cs) force
    have "bools m a \<longrightarrow> bools m b" if "satisfies m cs" for m
      using satisfiesD [OF that mem] by simp
    with e mem show ?thesis by blast
  qed
  have unknown: "requires_constraints fv req = []"
    if "(\<nexists>a. get req ''a'' = Some a \<and> a \<in> set (declared_names doc)) \<or>
        (\<nexists>b. get req ''b'' = Some b \<and> b \<in> set (declared_names doc))"
    for req
    unfolding fv using that by (rule requires_constraints_unknown)
  from c known unknown show ?thesis by blast
qed

lemma sample_requires: "xpath_tag sample_doc ''requires'' = [known_edge, unknown_edge]"
  by code_simp

theorem requires_edge_witness:
  "compile_feature_model sample_doc = Inr (sample_fv, sample_fm) \<and>
   known_edge \<in> set (xpath_tag sample_doc ''requires'') \<and>
   get known_edge ''a'' = Some ''SecOC_Protection'' \<and>
   get known_edge ''b'' = Some ''Fresh_Counter'' \<and>
   ''SecOC_Protection'' \<in> set (declared_names sample_doc) \<and>
   ''Fresh_Counter'' \<in> set (declared_names sample_doc) \<and>
   Implies (Bool ''SecOC_Protection'') (Bool ''Fresh_Counter'') \<in> set sample_fm \<and>
   satisfies sample_model sample_fm \<and>
   bools sample_model ''SecOC_Protection'' \<and>
   bools sample_model ''Fresh_Counter'' \<and>
   unknown_edge \<in> set (xpath_tag sample_doc ''requires'') \<and>
   get unknown_edge ''b'' = Some ''Typo'' \<and>
   ''Typo'' \<notin> set (declared_names sample_doc) \<and>
   requires_constraints sample_fv unknown_edge = []"
proof -
  from requires_edge [of sample_doc] obtain fv cs
    where c: "compile_feature_model sample_doc = Inr (fv, cs)"
      and edges: "\<forall>req \<in> set (xpath_tag sample_doc ''requires'').
        (\<forall>a b. get req ''a'' = Some a \<and> get req ''b'' = Some b \<and>
               a \<in> set (declared_names sample_doc) \<and> b \<in> set (declared_names sample_doc) \<longrightarrow>
           requires_constraints fv req = [Implies (Bool a) (Bool b)] \<and>
           Implies (Bool a) (Bool b) \<in> set cs \<and>
           (\<forall>m. satisfies m cs \<longrightarrow> bools m a \<longrightarrow> bools m b)) \<and>
        ((\<nexists>a. get req ''a'' = Some a \<and> a \<in> set (declared_names sample_doc)) \<or>
         (\<nexists>b. get req ''b'' = Some b \<and> b \<in> set (declared_names sample_doc)) \<longrightarrow>
           requires_constraints fv req = [])"
    by blast
  from c have fv: "fv = sample_fv" and cs: "cs = sample_fm"
    by (simp_all add: sample_compiled)
  have k: "known_edge \<in> set (xpath_tag sample_doc ''requires'')"
    and u: "unknown_edge \<in> set (xpath_tag sample_doc ''requires'')"
    by (simp_all add: sample_requires)
  have ga: "get known_edge ''a'' = Some ''SecOC_Protection''"
    and gb: "get known_edge ''b'' = Some ''Fresh_Counter''"
    and gt: "get unknown_edge ''b'' = Some ''Typo''"
    by (simp_all add: get_def known_edge_def unknown_edge_def)
  have da: "''SecOC_Protection'' \<in> set (declared_names sample_doc)"
    and db: "''Fresh_Counter'' \<in> set (declared_names sample_doc)"
    and dt: "''Typo'' \<notin> set (declared_names sample_doc)"
    by (simp_all add: sample_declared)
  have sat: "satisfies sample_model sample_fm"
    by code_simp
  from edges k ga gb da db
  have mem: "Implies (Bool ''SecOC_Protection'') (Bool ''Fresh_Counter'') \<in> set sample_fm"
    and imp: "\<forall>m. satisfies m sample_fm \<longrightarrow> bools m ''SecOC_Protection'' \<longrightarrow> bools m ''Fresh_Counter''"
    unfolding fv cs by blast+
  have a: "bools sample_model ''SecOC_Protection''"
    by (simp add: sample_model_def)
  with imp sat have b: "bools sample_model ''Fresh_Counter''"
    by blast
  from gt dt have "\<nexists>b. get unknown_edge ''b'' = Some b \<and> b \<in> set (declared_names sample_doc)"
    by simp
  with edges u have none: "requires_constraints sample_fv unknown_edge = []"
    unfolding fv by blast
  from sample_compiled k ga gb da db mem sat a b u gt dt none show ?thesis
    by blast
qed

subsection \<open>Unknown variants\<close>

text \<open>
  Claim C8. A variant identifier other than V1, V2 and V3 loads the empty preset, which
  adds no assertion: the program returns what the solver answers for the structural
  constraints, the policy constraint, the definition of the cost and the empirical
  constraints.
\<close>

theorem unknown_variant:
  assumes "v \<notin> {''V1'', ''V2'', ''V3''}"
  shows "load_variant v = [] \<and>
         (\<exists>fv fm. compile_feature_model doc = Inr (fv, fm) \<and>
            variant_constraints fv (load_variant v) = [] \<and>
            solver_assertions bounds doc v =
              Inr (fv, fm @ req_constraints fv @ snd (build_latency_model bounds fv)
                       @ empirical_constraints bounds v latency_ms) \<and>
            synthesize_variant solve bounds doc v =
              (case solve (fm @ req_constraints fv @ snd (build_latency_model bounds fv)
                              @ empirical_constraints bounds v latency_ms) of
                 Some m \<Rightarrow> Inr (Some (evaluate_all fv m))
               | None \<Rightarrow> Inr None))"
proof -
  from assms have empty: "load_variant v = []"
    by (simp add: load_variant_def)
  obtain fv fm where c: "compile_feature_model doc = Inr (fv, fm)"
    using compile_feature_model_eq by blast
  have vc: "variant_constraints fv (load_variant v) = []"
    unfolding empty by (simp add: variant_constraints_def)
  have sa: "solver_assertions bounds doc v =
              Inr (fv, fm @ req_constraints fv @ snd (build_latency_model bounds fv)
                       @ empirical_constraints bounds v latency_ms)"
    unfolding solver_assertions_eq [OF c] vc by (simp add: build_latency_model_def)
  have "synthesize_variant solve bounds doc v =
              (case solve (fm @ req_constraints fv @ snd (build_latency_model bounds fv)
                              @ empirical_constraints bounds v latency_ms) of
                 Some m \<Rightarrow> Inr (Some (evaluate_all fv m))
               | None \<Rightarrow> Inr None)"
    unfolding synthesize_variant_def sa by simp
  with empty c vc sa show ?thesis by blast
qed

lemma sample_V99_assertions:
  "sample_fm @ req_constraints sample_fv @ snd (build_latency_model sample_bounds sample_fv)
     @ empirical_constraints sample_bounds ''V99'' latency_ms
   = sample_assertions ''V99'' (35 / 10)"
  by code_simp

theorem unknown_variant_witness:
  "''V99'' \<notin> {''V1'', ''V2'', ''V3''} \<and>
   load_variant ''V99'' = [] \<and>
   compile_feature_model sample_doc = Inr (sample_fv, sample_fm) \<and>
   variant_constraints sample_fv (load_variant ''V99'') = [] \<and>
   solver_assertions sample_bounds sample_doc ''V99''
     = Inr (sample_fv, sample_assertions ''V99'' (35 / 10)) \<and>
   synthesize_variant (try_model sample_model) sample_bounds sample_doc ''V99''
     = Inr (Some sample_result)"
proof -
  have v: "''V99'' \<notin> {''V1'', ''V2'', ''V3''}"
    by simp
  from unknown_variant [OF v, of sample_doc sample_bounds "try_model sample_model"]
  obtain fv fm where e: "load_variant ''V99'' = []"
    and c: "compile_feature_model sample_doc = Inr (fv, fm)"
    and vc: "variant_constraints fv (load_variant ''V99'') = []"
    and sa: "solver_assertions sample_bounds sample_doc ''V99'' =
              Inr (fv, fm @ req_constraints fv @ snd (build_latency_model sample_bounds fv)
                       @ empirical_constraints sample_bounds ''V99'' latency_ms)"
    by blast
  from c have fv: "fv = sample_fv" and fm: "fm = sample_fm"
    by (simp_all add: sample_compiled)
  from sa have "solver_assertions sample_bounds sample_doc ''V99''
     = Inr (sample_fv, sample_assertions ''V99'' (35 / 10))"
    unfolding fv fm sample_V99_assertions .
  with v e vc sample_compiled sample_V99 show ?thesis
    unfolding fv by simp
qed

subsection \<open>The returned dictionary\<close>

lemma evaluate_all_make_feature_vars:
  "evaluate_all (make_feature_vars names) m = map (\<lambda>k. (k, bools m k)) (sort (remdups names))"
  by (simp add: evaluate_all_def make_feature_vars_def)

text \<open>
  Claim C9. The keys of a returned dictionary are the keys of the dictionary of feature
  variables, in the same order: each declared name once, and nothing else. Each value is
  the boolean the solver's model gives the feature. The values of \<^verbatim>\<open>latency_ms\<close> and
  \<^verbatim>\<open>freshness_window_ms\<close> in that model do not enter the result.
\<close>

theorem result_keys:
  assumes "synthesize_variant solve bounds doc v = Inr (Some r)"
  shows "set (map fst r) = set (declared_names doc) \<and> distinct (map fst r) \<and>
         (\<exists>fv cs m. solver_assertions bounds doc v = Inr (fv, cs) \<and> solve cs = Some m \<and>
            map fst r = map fst fv \<and>
            r = map (\<lambda>k. (k, bools m k)) (sort (remdups (declared_names doc))) \<and>
            (\<forall>x y. evaluate_all fv (m\<lparr>latency_val := x, freshness_val := y\<rparr>) = r))"
proof -
  from assms obtain fv cs m where sa: "solver_assertions bounds doc v = Inr (fv, cs)"
    and m: "solve cs = Some m" and r: "r = evaluate_all fv m"
    by (rule synthesize_variant_Some)
  from sa obtain fm where "compile_feature_model doc = Inr (fv, fm)"
    by (rule solver_assertions_parts)
  then have fv: "fv = make_feature_vars (declared_names doc)"
    by (rule compiled_fv)
  have list: "r = map (\<lambda>k. (k, bools m k)) (sort (remdups (declared_names doc)))"
    unfolding r fv by (rule evaluate_all_make_feature_vars)
  have keys: "map fst r = map fst fv"
    unfolding list fv by (simp add: make_feature_vars_def comp_def)
  have indep: "evaluate_all fv (m\<lparr>latency_val := x, freshness_val := y\<rparr>) = r" for x y
    unfolding list fv by (simp add: evaluate_all_make_feature_vars)
  from keys have "set (map fst r) = set (declared_names doc)" and "distinct (map fst r)"
    unfolding fv by (simp_all only: keys_make_feature_vars distinct_keys_make_feature_vars)
  with sa m keys list indep show ?thesis by blast
qed

theorem result_keys_witness:
  "synthesize_variant (try_model sample_model) sample_bounds sample_doc ''V3'' = Inr (Some sample_result) \<and>
   set (map fst sample_result) = set (declared_names sample_doc) \<and>
   distinct (map fst sample_result) \<and>
   map fst sample_result = map fst sample_fv \<and>
   evaluate_all sample_fv (sample_model\<lparr>latency_val := 0, freshness_val := 99\<rparr>) = sample_result"
proof -
  from result_keys [OF sample_V3] obtain fv cs m
    where k: "set (map fst sample_result) = set (declared_names sample_doc)"
      and d: "distinct (map fst sample_result)"
      and sa: "solver_assertions sample_bounds sample_doc ''V3'' = Inr (fv, cs)"
      and m: "try_model sample_model cs = Some m"
      and f: "map fst sample_result = map fst fv"
      and i: "\<forall>x y. evaluate_all fv (m\<lparr>latency_val := x, freshness_val := y\<rparr>) = sample_result"
    by blast
  from sa have fv: "fv = sample_fv" and cs: "cs = sample_assertions ''V3'' 3"
    by (simp_all add: sample_solver_assertions)
  from m have "m = sample_model"
    unfolding cs by (simp add: sample_solved)
  with i have "evaluate_all sample_fv (sample_model\<lparr>latency_val := 0, freshness_val := 99\<rparr>) = sample_result"
    unfolding fv by blast
  with sample_V3 k d f show ?thesis
    unfolding fv by simp
qed

subsection \<open>The range of the cost\<close>

lemma mac_cost_range: "12 / 10 \<le> eval_r m (mac_cost fv) \<and> eval_r m (mac_cost fv) \<le> 32 / 10"
  by (simp add: mac_cost_def)

lemma aes_cost_range: "9 / 10 \<le> eval_r m (aes_cost fv) \<and> eval_r m (aes_cost fv) \<le> 16 / 10"
  by (simp add: aes_cost_def)

lemma fr_cost_range: "7 / 10 \<le> eval_r m (fr_cost fv) \<and> eval_r m (fr_cost fv) \<le> 11 / 10"
  by (simp add: fr_cost_def)

lemma cost_range:
  "28 / 10 \<le> eval_r m (Add (Add (mac_cost fv) (aes_cost fv)) (fr_cost fv)) \<and>
   eval_r m (Add (Add (mac_cost fv) (aes_cost fv)) (fr_cost fv)) \<le> 59 / 10"
  using mac_cost_range [of m fv] aes_cost_range [of m fv] fr_cost_range [of m fv]
  by simp

text \<open>
  Claim C10. Whatever the dictionary of feature variables and the model, the expression
  that the latency equation sets \<^verbatim>\<open>latency_ms\<close> equal to has a value between 2.8 and 5.9.
  Hence a request whose latency bound is below 2.8 returns \<^verbatim>\<open>None\<close>, and a bound of at
  least 5.9 holds in every model of the other assertions.
\<close>

theorem cost_interval:
  "(\<exists>e. build_latency_model bounds fv = (latency_ms, [EqR latency_ms e]) \<and>
        (\<forall>m. 28 / 10 \<le> eval_r m e \<and> eval_r m e \<le> 59 / 10)) \<and>
   (sound solve \<and> latency_bound bounds v < 28 / 10 \<longrightarrow>
      synthesize_variant solve bounds doc v = Inr None) \<and>
   (59 / 10 \<le> latency_bound bounds v \<longrightarrow>
      (\<forall>fv' cs m. solver_assertions bounds doc v = Inr (fv', cs) \<and> satisfies m (butlast cs)
                   \<longrightarrow> satisfies m cs))"
proof (intro conjI impI allI)
  show "\<exists>e. build_latency_model bounds fv = (latency_ms, [EqR latency_ms e]) \<and>
        (\<forall>m. 28 / 10 \<le> eval_r m e \<and> eval_r m e \<le> 59 / 10)"
    unfolding build_latency_model_def using cost_range by blast
next
  assume a: "sound solve \<and> latency_bound bounds v < 28 / 10"
  obtain fv' fm where c: "compile_feature_model doc = Inr (fv', fm)"
    using compile_feature_model_eq by blast
  let ?e = "Add (Add (mac_cost fv') (aes_cost fv')) (fr_cost fv')"
  let ?cs = "fm @ req_constraints fv' @ variant_constraints fv' (load_variant v)
               @ [EqR latency_ms ?e] @ empirical_constraints bounds v latency_ms"
  have sa: "solver_assertions bounds doc v = Inr (fv', ?cs)"
    by (rule solver_assertions_eq [OF c])
  have "solve ?cs = None"
  proof (rule ccontr)
    assume "solve ?cs \<noteq> None"
    then obtain m where "solve ?cs = Some m" by blast
    with a have "satisfies m ?cs" by (blast intro: soundD)
    then have "latency_val m = eval_r m ?e" and "latency_val m \<le> latency_bound bounds v"
      by (simp_all add: empirical_constraints_def)
    with a cost_range [of m fv'] show False by simp
  qed
  then show "synthesize_variant solve bounds doc v = Inr None"
    by (simp add: synthesize_variant_def sa)
next
  fix fv' cs m
  assume b: "59 / 10 \<le> latency_bound bounds v"
    and h: "solver_assertions bounds doc v = Inr (fv', cs) \<and> satisfies m (butlast cs)"
  let ?e = "Add (Add (mac_cost fv') (aes_cost fv')) (fr_cost fv')"
  from h obtain fm where
    "cs = fm @ req_constraints fv' @ variant_constraints fv' (load_variant v)
             @ [EqR latency_ms ?e] @ empirical_constraints bounds v latency_ms"
    by (blast elim: solver_assertions_parts)
  then have cs: "cs = (fm @ req_constraints fv' @ variant_constraints fv' (load_variant v)
             @ [EqR latency_ms ?e, GeI freshness_window_ms (IntVal (py_int (d1_min_interarrival_ms bounds)))])
             @ [LeR latency_ms (RealVal (latency_bound bounds v))]"
    by (simp add: empirical_constraints_def)
  from h have pre: "satisfies m (fm @ req_constraints fv' @ variant_constraints fv' (load_variant v)
             @ [EqR latency_ms ?e, GeI freshness_window_ms (IntVal (py_int (d1_min_interarrival_ms bounds)))])"
    unfolding cs butlast_snoc by blast
  then have "latency_val m = eval_r m ?e" by simp
  with cost_range [of m fv'] b have "latency_val m \<le> latency_bound bounds v"
    by simp
  with pre show "satisfies m cs"
    unfolding cs by simp
qed

lemma loose_solver_assertions:
  "solver_assertions loose_bounds sample_doc ''V3'' = Inr (sample_fv, sample_assertions ''V3'' 6)"
  by code_simp

lemma loose_satisfies_others: "satisfies sample_model (butlast (sample_assertions ''V3'' 6))"
  by code_simp

theorem cost_interval_witness:
  "build_latency_model sample_bounds sample_fv
     = (latency_ms,
        [EqR latency_ms (Add (Add (mac_cost sample_fv) (aes_cost sample_fv)) (fr_cost sample_fv))]) \<and>
   eval_r sample_model (Add (Add (mac_cost sample_fv) (aes_cost sample_fv)) (fr_cost sample_fv)) = 28 / 10 \<and>
   sound (try_model sample_model) \<and>
   latency_bound tight_bounds ''V3'' < 28 / 10 \<and>
   synthesize_variant (try_model sample_model) tight_bounds sample_doc ''V3'' = Inr None \<and>
   59 / 10 \<le> latency_bound loose_bounds ''V3'' \<and>
   solver_assertions loose_bounds sample_doc ''V3'' = Inr (sample_fv, sample_assertions ''V3'' 6) \<and>
   satisfies sample_model (butlast (sample_assertions ''V3'' 6)) \<and>
   satisfies sample_model (sample_assertions ''V3'' 6)"
proof -
  have t: "latency_bound tight_bounds ''V3'' < 28 / 10"
    by (simp add: latency_bound_def tight_bounds_def sample_bounds_def)
  have l: "59 / 10 \<le> latency_bound loose_bounds ''V3''"
    by (simp add: latency_bound_def loose_bounds_def sample_bounds_def)
  have b: "build_latency_model sample_bounds sample_fv
     = (latency_ms,
        [EqR latency_ms (Add (Add (mac_cost sample_fv) (aes_cost sample_fv)) (fr_cost sample_fv))])"
    by (simp add: build_latency_model_def)
  have e: "eval_r sample_model (Add (Add (mac_cost sample_fv) (aes_cost sample_fv)) (fr_cost sample_fv)) = 28 / 10"
    by code_simp
  from cost_interval [of tight_bounds sample_fv "try_model sample_model" "''V3''" sample_doc]
    sound_try_model t
  have inf: "synthesize_variant (try_model sample_model) tight_bounds sample_doc ''V3'' = Inr None"
    by blast
  from cost_interval [of loose_bounds sample_fv "try_model sample_model" "''V3''" sample_doc]
    l loose_solver_assertions loose_satisfies_others
  have sat: "satisfies sample_model (sample_assertions ''V3'' 6)"
    by blast
  from b e sound_try_model t inf l loose_solver_assertions loose_satisfies_others sat
  show ?thesis by blast
qed

end
